theory Spec2Isabelle
  imports Main
begin

section \<open>JavaScript strings\<close>

text \<open>
  A JavaScript string is a sequence of UTF-16 code units. The labels handled by
  \<^verbatim>\<open>filterCourses.ts\<close> contain Japanese glyphs, so a string is a list of code-unit
  numbers; ASCII literals are written through \<open>js\<close>. The code only compares code units
  and maps the case of ASCII letters.
\<close>

type_synonym codeunit = nat
type_synonym jsstring = "codeunit list"

definition js :: "string \<Rightarrow> jsstring" where
  "js s = map of_char s"

text \<open>The two season glyphs of the Japanese pattern: U+6625 (spring) and U+79CB (autumn).\<close>

definition haru :: codeunit where
  "haru = 0x6625"

definition aki :: codeunit where
  "aki = 0x79CB"

text \<open>\<^verbatim>\<open>xs[i]\<close> on an array: \<^verbatim>\<open>undefined\<close> (here \<open>None\<close>) out of range.\<close>

definition at_index :: "'a list \<Rightarrow> nat \<Rightarrow> 'a option" where
  "at_index xs i = (if i < length xs then Some (xs ! i) else None)"

text \<open>\<^verbatim>\<open>s.split(d)\<close> for a separator of one code unit; the result is never empty.\<close>

fun split :: "codeunit \<Rightarrow> jsstring \<Rightarrow> jsstring list" where
  "split d [] = [[]]"
| "split d (c # cs) =
     (if c = d then [] # split d cs
      else (case split d cs of w # ws \<Rightarrow> (c # w) # ws | [] \<Rightarrow> [[c]]))"

text \<open>\<^verbatim>\<open>s.includes(t)\<close>: \<open>t\<close> occurs in \<open>s\<close> as a contiguous run.\<close>

fun startsWith :: "jsstring \<Rightarrow> jsstring \<Rightarrow> bool" where
  "startsWith s [] = True"
| "startsWith [] (t # ts) = False"
| "startsWith (c # cs) (t # ts) = (c = t \<and> startsWith cs ts)"

fun includesStr :: "jsstring \<Rightarrow> jsstring \<Rightarrow> bool" where
  "includesStr [] t = startsWith [] t"
| "includesStr (c # cs) t = (startsWith (c # cs) t \<or> includesStr cs t)"

text \<open>
  \<^verbatim>\<open>toLowerCase\<close> and \<^verbatim>\<open>toUpperCase\<close> on the ASCII range. The source lower-cases only
  characters matched by \<^verbatim>\<open>[abc]\<close> under the \<^verbatim>\<open>i\<close> flag, which are ASCII letters.
\<close>

definition toLowerCase :: "codeunit \<Rightarrow> codeunit" where
  "toLowerCase c = (if 0x41 \<le> c \<and> c \<le> 0x5A then c + 0x20 else c)"

definition toUpperCase :: "codeunit \<Rightarrow> codeunit" where
  "toUpperCase c = (if 0x61 \<le> c \<and> c \<le> 0x7A then c - 0x20 else c)"

section \<open>The regular expressions\<close>

text \<open>
  Without the \<^verbatim>\<open>s\<close> flag \<^verbatim>\<open>.\<close> matches every code unit but the four line
  terminators; \<^verbatim>\<open>\s\<close> matches the white-space code units and the line terminators.
\<close>

definition isLineTerminator :: "codeunit \<Rightarrow> bool" where
  "isLineTerminator c \<longleftrightarrow> c = 0x0A \<or> c = 0x0D \<or> c = 0x2028 \<or> c = 0x2029"

definition isWhiteSpace :: "codeunit \<Rightarrow> bool" where
  "isWhiteSpace c \<longleftrightarrow>
     c = 0x09 \<or> c = 0x0B \<or> c = 0x0C \<or> c = 0x20 \<or> c = 0xA0 \<or> c = 0x1680
     \<or> (0x2000 \<le> c \<and> c \<le> 0x200A) \<or> c = 0x202F \<or> c = 0x205F \<or> c = 0x3000
     \<or> c = 0xFEFF \<or> isLineTerminator c"

text \<open>
  \<^verbatim>\<open>/^.+\s.+$/.test(s)\<close>. \<open>afterDot\<close> is the matcher once \<^verbatim>\<open>.+\<close> has taken at least
  one code unit: either the next one is the \<^verbatim>\<open>\s\<close> and the rest is a non-empty run
  of \<^verbatim>\<open>.\<close> up to the end, or \<^verbatim>\<open>.+\<close> takes one more.
\<close>

fun afterDot :: "jsstring \<Rightarrow> bool" where
  "afterDot [] = False"
| "afterDot (c # cs) =
     ((isWhiteSpace c \<and> cs \<noteq> [] \<and> list_all (\<lambda>u. \<not> isLineTerminator u) cs)
      \<or> (\<not> isLineTerminator c \<and> afterDot cs))"

fun hasTwoTokens :: "jsstring \<Rightarrow> bool" where
  "hasTwoTokens [] = False"
| "hasTwoTokens (c # cs) = (\<not> isLineTerminator c \<and> afterDot cs)"

text \<open>\<^verbatim>\<open>[abc]\<close> under the \<^verbatim>\<open>i\<close> flag.\<close>

definition isSegmentLetter :: "codeunit \<Rightarrow> bool" where
  "isSegmentLetter c \<longleftrightarrow> toUpperCase c = 0x41 \<or> toUpperCase c = 0x42 \<or> toUpperCase c = 0x43"

text \<open>
  \<^verbatim>\<open>s.match(/^([HA])([abc]+)/i)\<close>, where \<open>H\<close> and \<open>A\<close> stand for the glyphs \<open>haru\<close> and
  \<open>aki\<close>: the two capture groups, or \<open>None\<close> for \<^verbatim>\<open>null\<close>.
  The class takes exactly one glyph; \<^verbatim>\<open>[abc]+\<close> is greedy.
\<close>

fun matchJa :: "jsstring \<Rightarrow> (jsstring \<times> jsstring) option" where
  "matchJa [] = None"
| "matchJa (c # cs) =
     (if (c = haru \<or> c = aki) \<and> takeWhile isSegmentLetter cs \<noteq> []
      then Some ([c], takeWhile isSegmentLetter cs) else None)"

text \<open>
  \<^verbatim>\<open>s.match(/^(Spring|Autumn)\s([abc]+)/i)\<close>. Both alternatives have six letters; a
  letter of the pattern matches a code unit with the same upper case.
\<close>

definition matchEn :: "jsstring \<Rightarrow> (jsstring \<times> jsstring) option" where
  "matchEn s =
     (if map toUpperCase (take 6 s) = js ''SPRING'' \<or> map toUpperCase (take 6 s) = js ''AUTUMN''
      then (case drop 6 s of
              [] \<Rightarrow> None
            | w # cs \<Rightarrow>
                if isWhiteSpace w \<and> takeWhile isSegmentLetter cs \<noteq> []
                then Some (take 6 s, takeWhile isSegmentLetter cs) else None)
      else None)"

section \<open>The module code\<close>

record parsedModuleCode =
  season :: "jsstring option"
  module :: "jsstring option"

definition parseModuleCode :: "jsstring \<Rightarrow> parsedModuleCode" where
  "parseModuleCode moduleCode =
     \<lparr>season = at_index (split 0x2D moduleCode) 0,
      module = at_index (split 0x2D moduleCode) 1\<rparr>"

text \<open>The values of the selector, in the order of \<^verbatim>\<open>createModuleSelector\<close>.\<close>

definition moduleCodes :: "jsstring list" where
  "moduleCodes =
     [js ''all'', js ''spring-a'', js ''spring-b'', js ''spring-c'',
      js ''autumn-a'', js ''autumn-b'', js ''autumn-c'']"

text \<open>
  The encoding in the words of the specification: season, the separator, and the segment
  in lower case. A missing part encodes nothing.
\<close>

definition encodeModuleCode :: "parsedModuleCode \<Rightarrow> jsstring option" where
  "encodeModuleCode p =
     (case (season p, module p) of
        (Some s, Some m) \<Rightarrow> Some (s @ js ''-'' @ map toLowerCase m)
      | _ \<Rightarrow> None)"

section \<open>The course-info parser\<close>

datatype error = InvalidViewMode | InvalidLang | TypeError

record seasonFlags =
  spring :: bool
  autumn :: bool

record courseInfo =
  info_season :: seasonFlags
  info_module :: "jsstring list"

text \<open>
  \<^verbatim>\<open>parseCourseInfoString\<close> reads the page-global \<^verbatim>\<open>lang\<close>, here its first argument.
  \<open>Inr None\<close> is the \<^verbatim>\<open>undefined\<close> returned when the pattern does not match;
  \<open>Inl InvalidLang\<close> is \<^verbatim>\<open>throw "invalid lang"\<close>.
\<close>

definition parseCourseInfoString :: "jsstring \<Rightarrow> jsstring \<Rightarrow> error + courseInfo option" where
  "parseCourseInfoString lang courseInfoString =
     (if lang = js ''ja'' then
        (case matchJa courseInfoString of
           Some (s, m) \<Rightarrow>
             Inr (Some \<lparr>info_season = \<lparr>spring = includesStr s [haru], autumn = includesStr s [aki]\<rparr>,
                        info_module = map (\<lambda>c. [toLowerCase c]) m\<rparr>)
         | None \<Rightarrow> Inr None)
      else if lang = js ''en'' then
        (case matchEn courseInfoString of
           Some (s, m) \<Rightarrow>
             Inr (Some \<lparr>info_season = \<lparr>spring = (s = js ''Spring''), autumn = (s = js ''Autumn'')\<rparr>,
                        info_module = map (\<lambda>c. [toLowerCase c]) m\<rparr>)
         | None \<Rightarrow> Inr None)
      else Inl InvalidLang)"

text \<open>
  \<^verbatim>\<open>courseInfo.season[key]\<close> as a condition. The object has the own properties
  \<^verbatim>\<open>spring\<close> and \<^verbatim>\<open>autumn\<close>; any other key is looked up on \<^verbatim>\<open>Object.prototype\<close>,
  whose properties are functions or objects, hence truthy.
\<close>

definition objectPrototypeKeys :: "jsstring list" where
  "objectPrototypeKeys =
     [js ''constructor'', js ''hasOwnProperty'', js ''isPrototypeOf'',
      js ''propertyIsEnumerable'', js ''toLocaleString'', js ''toString'', js ''valueOf'',
      js ''__proto__'', js ''__defineGetter__'', js ''__defineSetter__'',
      js ''__lookupGetter__'', js ''__lookupSetter__'']"

definition seasonMember :: "seasonFlags \<Rightarrow> jsstring option \<Rightarrow> bool" where
  "seasonMember flags key =
     (case key of
        None \<Rightarrow> False
      | Some k \<Rightarrow>
          if k = js ''spring'' then spring flags
          else if k = js ''autumn'' then autumn flags
          else k \<in> set objectPrototypeKeys)"

text \<open>\<^verbatim>\<open>courseInfo.module.includes(x)\<close>, where \<open>x\<close> may be \<^verbatim>\<open>undefined\<close>.\<close>

definition moduleIncludes :: "jsstring list \<Rightarrow> jsstring option \<Rightarrow> bool" where
  "moduleIncludes ms x = (case x of None \<Rightarrow> False | Some m \<Rightarrow> m \<in> set ms)"

section \<open>The page\<close>

text \<open>
  What \<^verbatim>\<open>applyFilter\<close> reads and writes of a course element: \<^verbatim>\<open>style.display\<close>, the
  class list, the \<^verbatim>\<open>innerText\<close> of each child element (list layout reads the third),
  and the \<^verbatim>\<open>title\<close> of the first descendant matching
  \<^verbatim>\<open>.courseitemdetail-date span\<close>, if there is one (thumbnail layout).
\<close>

record course =
  display :: jsstring
  classList :: "jsstring list"
  children :: "jsstring list"
  dateSpan :: "jsstring option"

text \<open>
  The page: the children of \<^verbatim>\<open>.courselist tbody\<close> and of \<^verbatim>\<open>.mycourses-body .section\<close>,
  each \<open>None\<close> when \<^verbatim>\<open>querySelector\<close> finds no such element.
\<close>

record page =
  coursesListContainer :: "course list option"
  coursesThumbnailContainer :: "course list option"

datatype viewMode = ListView | ThumbnailView

text \<open>How a pass ends; the page keeps every mutation made before a \<^verbatim>\<open>throw\<close>.\<close>

datatype outcome = Completed | Thrown error

text \<open>
  Lines 141 to 158: the layout and the course elements, without the header row
  (\<^verbatim>\<open>shift\<close>) or the trailing node (\<^verbatim>\<open>pop\<close>); both leave an empty array empty.
\<close>

definition detectLayout :: "page \<Rightarrow> error + viewMode \<times> course list" where
  "detectLayout p =
     (case coursesListContainer p of
        Some cs \<Rightarrow> Inr (ListView, tl cs)
      | None \<Rightarrow>
          (case coursesThumbnailContainer p of
             Some cs \<Rightarrow> Inr (ThumbnailView, butlast cs)
           | None \<Rightarrow> Inl InvalidViewMode))"

text \<open>
  The course elements are mutated in place: the page afterwards holds the updated
  elements where the old ones were.
\<close>

definition storeCourses :: "viewMode \<Rightarrow> course list \<Rightarrow> page \<Rightarrow> page" where
  "storeCourses vm cs' p =
     (case vm of
        ListView \<Rightarrow>
          p\<lparr>coursesListContainer := map_option (\<lambda>cs. take 1 cs @ cs') (coursesListContainer p)\<rparr>
      | ThumbnailView \<Rightarrow>
          p\<lparr>coursesThumbnailContainer :=
               map_option (\<lambda>cs. cs' @ drop (length cs - 1) cs) (coursesThumbnailContainer p)\<rparr>)"

text \<open>
  \<^verbatim>\<open>classList.replace(token, newToken)\<close>: nothing happens unless \<open>token\<close> is present;
  then the first occurrence of either token becomes \<open>newToken\<close> and every other
  occurrence of either is removed.
\<close>

fun replaceFirst :: "jsstring \<Rightarrow> jsstring \<Rightarrow> jsstring list \<Rightarrow> jsstring list" where
  "replaceFirst token newToken [] = []"
| "replaceFirst token newToken (t # ts) =
     (if t = token \<or> t = newToken
      then newToken # filter (\<lambda>u. u \<noteq> token \<and> u \<noteq> newToken) ts
      else t # replaceFirst token newToken ts)"

definition replace :: "jsstring \<Rightarrow> jsstring \<Rightarrow> jsstring list \<Rightarrow> jsstring list" where
  "replace token newToken ts = (if token \<in> set ts then replaceFirst token newToken ts else ts)"

section \<open>Showing and hiding\<close>

text \<open>
  \<^verbatim>\<open>isOddRow\<close> is a variable of \<^verbatim>\<open>applyFilter\<close> shared by the closures; it is passed
  along with the element and returned.
\<close>

definition handleOddRow :: "bool \<times> course \<Rightarrow> bool \<times> course" where
  "handleOddRow st =
     (case st of (isOddRow, c) \<Rightarrow>
        (\<not> isOddRow,
         if isOddRow then c\<lparr>classList := replace (js ''row0'') (js ''row1'') (classList c)\<rparr>
         else c\<lparr>classList := replace (js ''row1'') (js ''row0'') (classList c)\<rparr>))"

definition showCourse :: "viewMode \<Rightarrow> bool \<times> course \<Rightarrow> bool \<times> course" where
  "showCourse vm st =
     (case st of (isOddRow, c) \<Rightarrow>
        (case vm of
           ListView \<Rightarrow> handleOddRow (isOddRow, c\<lparr>display := js ''table-row''\<rparr>)
         | ThumbnailView \<Rightarrow> (isOddRow, c\<lparr>display := js ''block''\<rparr>)))"

definition hideCourse :: "course \<Rightarrow> course" where
  "hideCourse c = c\<lparr>display := js ''none''\<rparr>"

section \<open>The filter pass\<close>

text \<open>
  Lines 246 to 261. \<^verbatim>\<open>course.children[2]\<close> is \<^verbatim>\<open>undefined\<close> for a row with fewer than
  three cells, and reading \<^verbatim>\<open>innerText\<close> of it throws a \<^verbatim>\<open>TypeError\<close>.
\<close>

definition getCourseInfoString :: "viewMode \<Rightarrow> course \<Rightarrow> error + jsstring" where
  "getCourseInfoString vm c =
     (case vm of
        ListView \<Rightarrow>
          (case at_index (children c) 2 of Some t \<Rightarrow> Inr t | None \<Rightarrow> Inl TypeError)
      | ThumbnailView \<Rightarrow>
          (case dateSpan c of Some t \<Rightarrow> Inr t | None \<Rightarrow> Inr []))"

text \<open>Line 243: in list layout the row is displayed before its text is read.\<close>

definition displayRow :: "viewMode \<Rightarrow> course \<Rightarrow> course" where
  "displayRow vm c = (case vm of ListView \<Rightarrow> c\<lparr>display := js ''table-row''\<rparr> | ThumbnailView \<Rightarrow> c)"

text \<open>The callback of lines 239 to 278, for one course element.\<close>

definition filterCourse ::
  "jsstring \<Rightarrow> viewMode \<Rightarrow> parsedModuleCode \<Rightarrow> bool \<times> course \<Rightarrow> outcome \<times> bool \<times> course" where
  "filterCourse lang vm parsedModuleCode st =
     (case st of (isOddRow, c0) \<Rightarrow>
        let c = displayRow vm c0 in
        (case getCourseInfoString vm c of
           Inl e \<Rightarrow> (Thrown e, isOddRow, c)
         | Inr courseInfoString \<Rightarrow>
             if hasTwoTokens courseInfoString then
               (case parseCourseInfoString lang courseInfoString of
                  Inl e \<Rightarrow> (Thrown e, isOddRow, c)
                | Inr courseInfo \<Rightarrow>
                    if (case courseInfo of
                          None \<Rightarrow> False
                        | Some info \<Rightarrow>
                            seasonMember (info_season info) (season parsedModuleCode)
                            \<and> moduleIncludes (info_module info) (module parsedModuleCode))
                    then (Completed, showCourse vm (isOddRow, c))
                    else (Completed, isOddRow, hideCourse c))
             else (Completed, showCourse vm (isOddRow, c))))"

text \<open>The callback of lines 280 to 282.\<close>

definition showEach :: "viewMode \<Rightarrow> bool \<times> course \<Rightarrow> outcome \<times> bool \<times> course" where
  "showEach vm st = (Completed, showCourse vm st)"

text \<open>
  \<^verbatim>\<open>courses.forEach(f)\<close>: the elements in order, stopping at the first \<^verbatim>\<open>throw\<close>; the
  elements after it are left as they were.
\<close>

fun forEach ::
  "(bool \<times> course \<Rightarrow> outcome \<times> bool \<times> course) \<Rightarrow> bool \<Rightarrow> course list
     \<Rightarrow> outcome \<times> bool \<times> course list" where
  "forEach f isOddRow [] = (Completed, isOddRow, [])"
| "forEach f isOddRow (c # cs) =
     (case f (isOddRow, c) of
        (Thrown e, isOddRow', c') \<Rightarrow> (Thrown e, isOddRow', c' # cs)
      | (Completed, isOddRow', c') \<Rightarrow>
          (case forEach f isOddRow' cs of (r, isOddRow'', cs') \<Rightarrow> (r, isOddRow'', c' # cs')))"

definition applyFilter :: "jsstring \<Rightarrow> jsstring \<Rightarrow> page \<Rightarrow> outcome \<times> page" where
  "applyFilter lang moduleCode p =
     (case detectLayout p of
        Inl e \<Rightarrow> (Thrown e, p)
      | Inr (vm, courses) \<Rightarrow>
          (case forEach
                  (if moduleCode \<noteq> js ''all''
                   then filterCourse lang vm (parseModuleCode moduleCode)
                   else showEach vm)
                  True courses of
             (r, isOddRow, courses') \<Rightarrow> (r, storeCourses vm courses' p)))"

section \<open>Example pages\<close>

text \<open>
  A row of the list layout with three cells, the third holding the schedule label, and a
  page in list layout whose first row is the header.
\<close>

definition exampleRow :: "jsstring \<Rightarrow> course" where
  "exampleRow label =
     \<lparr>display = [], classList = [js ''row0''], children = [js ''2024'', js ''Course'', label],
      dateSpan = None\<rparr>"

definition examplePage :: "jsstring list \<Rightarrow> page" where
  "examplePage labels =
     \<lparr>coursesListContainer = Some (exampleRow (js ''Term'') # map exampleRow labels),
      coursesThumbnailContainer = None\<rparr>"

section \<open>Reading the result of a pass\<close>

text \<open>The course elements of a page, as \<open>detectLayout\<close> finds them.\<close>

definition coursesOf :: "page \<Rightarrow> course list" where
  "coursesOf p = (case detectLayout p of Inr (vm, cs) \<Rightarrow> cs | Inl e \<Rightarrow> [])"

text \<open>
  The striping in the words of the specification: the flag is carried along the rows in
  order; a row that is displayed takes the class of the flag, by the class swap of
  \<open>handleOddRow\<close>, and flips it; a hidden row is passed over.
\<close>

fun stripeVisible :: "bool \<Rightarrow> course list \<Rightarrow> course list" where
  "stripeVisible isOddRow [] = []"
| "stripeVisible isOddRow (c # cs) =
     (if display c = js ''none'' then c # stripeVisible isOddRow cs
      else snd (handleOddRow (isOddRow, c)) # stripeVisible (\<not> isOddRow) cs)"

definition visible :: "course \<Rightarrow> bool" where
  "visible c \<longleftrightarrow> display c \<noteq> js ''none''"

text \<open>
  A row carries one of the two alternating classes; and a row striped for a flag carries
  \<^verbatim>\<open>row1\<close> and not \<^verbatim>\<open>row0\<close> when the flag is odd, the reverse otherwise.
\<close>

definition hasRowClass :: "course \<Rightarrow> bool" where
  "hasRowClass c \<longleftrightarrow> js ''row0'' \<in> set (classList c) \<or> js ''row1'' \<in> set (classList c)"

definition stripedAs :: "bool \<Rightarrow> course \<Rightarrow> bool" where
  "stripedAs isOddRow c \<longleftrightarrow>
     (if isOddRow then js ''row1'' \<in> set (classList c) \<and> js ''row0'' \<notin> set (classList c)
      else js ''row0'' \<in> set (classList c) \<and> js ''row1'' \<notin> set (classList c))"

section \<open>Tokens\<close>

text \<open>
  The tokens of a label in the words of the specification: the label is cut at every
  white-space code unit, and the tokens are the pieces that are not empty.
\<close>

fun splitWhere :: "(codeunit \<Rightarrow> bool) \<Rightarrow> jsstring \<Rightarrow> jsstring list" where
  "splitWhere P [] = [[]]"
| "splitWhere P (c # cs) =
     (if P c then [] # splitWhere P cs
      else (case splitWhere P cs of w # ws \<Rightarrow> (c # w) # ws | [] \<Rightarrow> [[c]]))"

definition whitespaceTokens :: "jsstring \<Rightarrow> jsstring list" where
  "whitespaceTokens s = filter (\<lambda>t. t \<noteq> []) (splitWhere isWhiteSpace s)"

section \<open>Facts about the string functions\<close>

lemmas char_defs = js_def haru_def aki_def toLowerCase_def toUpperCase_def
  isLineTerminator_def isWhiteSpace_def isSegmentLetter_def

lemma split_unfold:
  "split d s = takeWhile (\<lambda>c. c \<noteq> d) s
     # (if d \<in> set s then split d (tl (dropWhile (\<lambda>c. c \<noteq> d) s)) else [])"
proof (induction s)
  case Nil
  show ?case by simp
next
  case (Cons c cs)
  show ?case
  proof (cases "c = d")
    case True
    then show ?thesis by simp
  next
    case False
    then show ?thesis by (subst split.simps, subst Cons.IH) simp
  qed
qed

lemma split_first: "at_index (split d s) 0 = Some (takeWhile (\<lambda>c. c \<noteq> d) s)"
  by (subst split_unfold) (simp add: at_index_def)

lemma split_second:
  "at_index (split d s) 1 =
     (if d \<in> set s then Some (takeWhile (\<lambda>c. c \<noteq> d) (tl (dropWhile (\<lambda>c. c \<noteq> d) s))) else None)"
proof (cases "d \<in> set s")
  case True
  have "split d s = takeWhile (\<lambda>c. c \<noteq> d) s # split d (tl (dropWhile (\<lambda>c. c \<noteq> d) s))"
    using True by (subst split_unfold) simp
  also have "split d (tl (dropWhile (\<lambda>c. c \<noteq> d) s)) =
      takeWhile (\<lambda>c. c \<noteq> d) (tl (dropWhile (\<lambda>c. c \<noteq> d) s))
      # (if d \<in> set (tl (dropWhile (\<lambda>c. c \<noteq> d) s))
         then split d (tl (dropWhile (\<lambda>c. c \<noteq> d) (tl (dropWhile (\<lambda>c. c \<noteq> d) s)))) else [])"
    by (rule split_unfold)
  finally show ?thesis using True by (simp add: at_index_def)
next
  case False
  then show ?thesis by (subst split_unfold) (simp add: at_index_def)
qed

lemma display_values [simp]:
  "js ''table-row'' \<noteq> js ''none''" "js ''block'' \<noteq> js ''none''"
  "js ''none'' \<noteq> js ''table-row''" "js ''none'' \<noteq> js ''block''"
  "js ''row0'' \<noteq> js ''row1''" "js ''row1'' \<noteq> js ''row0''"
  by (simp_all add: js_def)

lemma afterDot_needs_space: "\<forall>u\<in>set s. \<not> isWhiteSpace u \<Longrightarrow> \<not> afterDot s"
  by (induction s) auto

lemma hasTwoTokens_needs_space: "\<forall>u\<in>set s. \<not> isWhiteSpace u \<Longrightarrow> \<not> hasTwoTokens s"
  by (cases s) (auto dest: afterDot_needs_space)

lemma afterDot_append:
  "list_all (\<lambda>u. \<not> isLineTerminator u) pre \<Longrightarrow> isWhiteSpace sp \<Longrightarrow> t \<noteq> []
   \<Longrightarrow> list_all (\<lambda>u. \<not> isLineTerminator u) t \<Longrightarrow> afterDot (pre @ sp # t)"
  by (induction pre) auto

lemma season_word_no_terminator:
  assumes "map toUpperCase w = js ''SPRING'' \<or> map toUpperCase w = js ''AUTUMN''"
  shows "w \<noteq> [] \<and> list_all (\<lambda>u. \<not> isLineTerminator u) w"
proof -
  from assms have ne: "w \<noteq> []" by (auto simp add: js_def)
  have "\<not> isLineTerminator u" if u: "u \<in> set w" for u
  proof -
    from u have m: "toUpperCase u \<in> set (map toUpperCase w)" by simp
    from assms have "toUpperCase u \<in> set (js ''SPRING'') \<or> toUpperCase u \<in> set (js ''AUTUMN'')"
    proof
      assume "map toUpperCase w = js ''SPRING''"
      with m show ?thesis by (simp only:) simp
    next
      assume "map toUpperCase w = js ''AUTUMN''"
      with m show ?thesis by (simp only:) simp
    qed
    then show ?thesis
      by (auto simp add: js_def isLineTerminator_def toUpperCase_def split: if_splits)
  qed
  with ne show ?thesis by (simp add: list_all_iff)
qed

lemma hasTwoTokens_single_line:
  assumes "map toUpperCase w = js ''SPRING'' \<or> map toUpperCase w = js ''AUTUMN''"
    and "isWhiteSpace sp" and "t \<noteq> []" and "list_all (\<lambda>u. \<not> isLineTerminator u) t"
  shows "hasTwoTokens (w @ sp # t)"
proof -
  from season_word_no_terminator [OF assms(1)]
  obtain c w' where w: "w = c # w'" and c: "\<not> isLineTerminator c"
    and w': "list_all (\<lambda>u. \<not> isLineTerminator u) w'"
    by (cases w) auto
  from w' assms(2,3,4) have "afterDot (w' @ sp # t)" by (rule afterDot_append)
  with c show ?thesis by (simp add: w)
qed

lemma matchJa_season: "matchJa s = Some (t, m) \<Longrightarrow> t = [haru] \<or> t = [aki]"
  by (cases s) (auto split: if_splits)

lemma concrete_season:
  "moduleCode \<in> set (tl moduleCodes) \<Longrightarrow>
     season (parseModuleCode moduleCode) = Some (js ''spring'')
     \<or> season (parseModuleCode moduleCode) = Some (js ''autumn'')"
  by (auto simp add: moduleCodes_def parseModuleCode_def at_index_def js_def)

lemma takeWhile_all_append:
  "list_all P xs \<Longrightarrow> takeWhile P (xs @ ys) = xs @ takeWhile P ys"
  by (induction xs) auto

lemma matchEn_cased:
  assumes w: "map toUpperCase w = js ''SPRING'' \<or> map toUpperCase w = js ''AUTUMN''"
    and sp: "isWhiteSpace sp" and ne: "segs \<noteq> []" and segs: "list_all isSegmentLetter segs"
  shows "matchEn (w @ sp # segs @ rest) = Some (w, segs @ takeWhile isSegmentLetter rest)"
proof -
  from w have "length (map toUpperCase w) = 6" by (auto simp add: js_def)
  then have len: "length w = 6" by simp
  then have tk: "take 6 (w @ sp # segs @ rest) = w" and dr: "drop 6 (w @ sp # segs @ rest) = sp # segs @ rest"
    by simp_all
  from segs have tw: "takeWhile isSegmentLetter (segs @ rest) = segs @ takeWhile isSegmentLetter rest"
    by (rule takeWhile_all_append)
  show ?thesis
    unfolding matchEn_def tk dr using w sp ne by (simp add: tw)
qed

section \<open>Facts about one course element and about the loop\<close>

lemma getCourseInfoString_displayRow [simp]:
  "getCourseInfoString vm (displayRow vm c) = getCourseInfoString vm c"
  by (cases vm) (simp_all add: getCourseInfoString_def displayRow_def)

lemma showCourse_displayRow [simp]:
  "showCourse vm (f, displayRow vm c) = showCourse vm (f, c)"
  by (cases vm) (simp_all add: showCourse_def displayRow_def handleOddRow_def)

lemma hideCourse_displayRow [simp]: "hideCourse (displayRow vm c) = hideCourse c"
  by (cases vm) (simp_all add: hideCourse_def displayRow_def)

lemma display_showCourse:
  "display (snd (showCourse vm (f, c))) = (case vm of ListView \<Rightarrow> js ''table-row'' | ThumbnailView \<Rightarrow> js ''block'')"
  by (cases vm) (simp_all add: showCourse_def handleOddRow_def)

lemma forEach_showEach_completed:
  "forEach (showEach vm) f cs = (r, f', cs') \<Longrightarrow> r = Completed"
  by (induction cs arbitrary: f r f' cs')
    (auto simp add: showEach_def split: prod.splits outcome.splits)

lemma forEach_length_eq:
  "forEach g f cs = (r, f', cs') \<Longrightarrow> length cs' = length cs"
  by (induction cs arbitrary: f r f' cs')
    (auto split: prod.splits outcome.splits)

lemma filterCourse_short:
  "getCourseInfoString vm c = Inr l \<Longrightarrow> \<not> hasTwoTokens l
   \<Longrightarrow> filterCourse lang vm parsed (f, c) = showEach vm (f, c)"
  by (simp add: filterCourse_def showEach_def)

lemma forEach_short_prefix:
  assumes "\<forall>c\<in>set pre. \<exists>l. getCourseInfoString vm c = Inr l \<and> \<not> hasTwoTokens l"
  shows "forEach (filterCourse lang vm parsed) f (pre @ rest) =
     (case forEach (showEach vm) f pre of
        (r, f', pre') \<Rightarrow>
          (case forEach (filterCourse lang vm parsed) f' rest of
             (r', f'', rest') \<Rightarrow> (r', f'', pre' @ rest')))"
  using assms
proof (induction pre arbitrary: f)
  case Nil
  show ?case by (simp split: prod.splits)
next
  case (Cons c pre)
  from Cons.prems obtain l where l: "getCourseInfoString vm c = Inr l" "\<not> hasTwoTokens l"
    by auto
  have step: "filterCourse lang vm parsed (f, c) = showEach vm (f, c)"
    using l by (rule filterCourse_short)
  have ih: "\<And>f. forEach (filterCourse lang vm parsed) f (pre @ rest) =
     (case forEach (showEach vm) f pre of
        (r, f', pre') \<Rightarrow>
          (case forEach (filterCourse lang vm parsed) f' rest of
             (r', f'', rest') \<Rightarrow> (r', f'', pre' @ rest')))"
    using Cons.IH Cons.prems by simp
  obtain f1 c1 where s1: "showCourse vm (f, c) = (f1, c1)"
    by (cases "showCourse vm (f, c)")
  obtain r2 f2 pre2 where s2: "forEach (showEach vm) f1 pre = (r2, f2, pre2)"
    by (cases "forEach (showEach vm) f1 pre") auto
  obtain r3 f3 rest3 where s3: "forEach (filterCourse lang vm parsed) f2 rest = (r3, f3, rest3)"
    by (cases "forEach (filterCourse lang vm parsed) f2 rest") auto
  have r2: "r2 = Completed" using s2 by (rule forEach_showEach_completed)
  have e: "showEach vm (f, c) = (Completed, f1, c1)"
    by (simp add: showEach_def s1)
  show ?case
    by (simp add: step ih e s2 s3 r2)
qed

lemma filterCourse_invalid_lang:
  "lang \<noteq> js ''ja'' \<Longrightarrow> lang \<noteq> js ''en'' \<Longrightarrow> getCourseInfoString vm c = Inr l
   \<Longrightarrow> hasTwoTokens l
   \<Longrightarrow> filterCourse lang vm parsed (f, c) = (Thrown InvalidLang, f, displayRow vm c)"
  by (simp add: filterCourse_def parseCourseInfoString_def)

section \<open>Facts about the striping\<close>

lemma set_replaceFirst:
  "a \<in> set ts \<or> b \<in> set ts \<Longrightarrow> set (replaceFirst a b ts) = insert b (set ts - {a, b})"
  by (induction ts) auto

lemma replace_swaps:
  assumes "a \<in> set ts \<or> b \<in> set ts" and "a \<noteq> b"
  shows "b \<in> set (replace a b ts) \<and> a \<notin> set (replace a b ts)"
proof (cases "a \<in> set ts")
  case True
  then show ?thesis using assms(2) by (simp add: replace_def set_replaceFirst)
next
  case False
  then show ?thesis using assms by (simp add: replace_def)
qed

lemma handleOddRow_striped:
  "hasRowClass c \<Longrightarrow> stripedAs f (snd (handleOddRow (f, c)))"
  using replace_swaps [of "js ''row0''" "classList c" "js ''row1''"]
    replace_swaps [of "js ''row1''" "classList c" "js ''row0''"]
  by (auto simp add: hasRowClass_def stripedAs_def handleOddRow_def)

lemma handleOddRow_unclassed:
  "\<not> hasRowClass c \<Longrightarrow> classList (snd (handleOddRow (f, c))) = classList c"
  by (simp add: hasRowClass_def handleOddRow_def replace_def)

lemma filterCourse_outcomes:
  "filterCourse lang vm parsed (f, c) = (Completed, showCourse vm (f, c))
   \<or> filterCourse lang vm parsed (f, c) = (Completed, f, hideCourse c)
   \<or> (\<exists>e. filterCourse lang vm parsed (f, c) = (Thrown e, f, displayRow vm c))"
  by (simp add: filterCourse_def Let_def split: sum.splits)

lemma filterCourse_list_cases:
  assumes "filterCourse lang ListView parsed (f, c) = (Completed, f', c')"
  shows "(f' = f \<and> c' = c\<lparr>display := js ''none''\<rparr>)
       \<or> (f', c') = handleOddRow (f, c\<lparr>display := js ''table-row''\<rparr>)"
  using assms filterCourse_outcomes [of lang ListView parsed f c]
  by (auto simp add: showCourse_def hideCourse_def)

lemma showEach_list_cases:
  assumes "showEach ListView (f, c) = (Completed, f', c')"
  shows "(f' = f \<and> c' = c\<lparr>display := js ''none''\<rparr>)
       \<or> (f', c') = handleOddRow (f, c\<lparr>display := js ''table-row''\<rparr>)"
  using assms by (simp add: showEach_def showCourse_def)

lemma display_handleOddRow [simp]: "display (snd (handleOddRow (f, c))) = display c"
  by (simp add: handleOddRow_def)

lemma fst_handleOddRow [simp]: "fst (handleOddRow (f, c)) = (\<not> f)"
  by (simp add: handleOddRow_def)

lemma handleOddRow_classes_only:
  "c\<lparr>display := display (snd (handleOddRow (f, c\<lparr>display := d\<rparr>)))\<rparr> = c\<lparr>display := d\<rparr>"
  by (simp add: handleOddRow_def)

lemma forEach_stripes:
  assumes step: "\<And>f c f' c'. g (f, c) = (Completed, f', c') \<Longrightarrow>
      (f' = f \<and> c' = c\<lparr>display := js ''none''\<rparr>)
      \<or> (f', c') = handleOddRow (f, c\<lparr>display := js ''table-row''\<rparr>)"
    and run: "forEach g f cs = (Completed, f', cs')"
  shows "cs' = stripeVisible f (map2 (\<lambda>c c'. c\<lparr>display := display c'\<rparr>) cs cs')
       \<and> f' = (f = even (length (filter visible cs')))"
  using run
proof (induction cs arbitrary: f f' cs')
  case Nil
  then show ?case by simp
next
  case (Cons c cs)
  obtain r1 f1 c1 where g1: "g (f, c) = (r1, f1, c1)"
    by (cases "g (f, c)") auto
  obtain r2 f2 cs2 where g2: "forEach g f1 cs = (r2, f2, cs2)"
    by (cases "forEach g f1 cs") auto
  from Cons.prems g1 g2 have r1: "r1 = Completed" and r2: "r2 = Completed"
    and f': "f' = f2" and cs': "cs' = c1 # cs2"
    by (auto split: outcome.splits)
  from Cons.IH [of f1 f2 cs2] g2 r2
  have ih: "cs2 = stripeVisible f1 (map2 (\<lambda>c c'. c\<lparr>display := display c'\<rparr>) cs cs2)"
    and ihf: "f2 = (f1 = even (length (filter visible cs2)))"
    by simp_all
  from step g1 r1 consider
    (hidden) "f1 = f" "c1 = c\<lparr>display := js ''none''\<rparr>"
    | (shown) "(f1, c1) = handleOddRow (f, c\<lparr>display := js ''table-row''\<rparr>)"
    by blast
  then show ?case
  proof cases
    case hidden
    have "cs' = stripeVisible f (map2 (\<lambda>c c'. c\<lparr>display := display c'\<rparr>) (c # cs) cs')"
      unfolding cs' using hidden ih by simp
    moreover have "f' = (f = even (length (filter visible cs')))"
      unfolding cs' f' using hidden ihf by (simp add: visible_def)
    ultimately show ?thesis by simp
  next
    case shown
    then have f1: "f1 = (\<not> f)" and c1: "c1 = snd (handleOddRow (f, c\<lparr>display := js ''table-row''\<rparr>))"
      by (simp_all add: handleOddRow_def)
    have d: "c\<lparr>display := display c1\<rparr> = c\<lparr>display := js ''table-row''\<rparr>"
      unfolding c1 by (rule handleOddRow_classes_only)
    have "stripeVisible f (map2 (\<lambda>c c'. c\<lparr>display := display c'\<rparr>) (c # cs) (c1 # cs2))
        = c1 # stripeVisible (\<not> f) (map2 (\<lambda>c c'. c\<lparr>display := display c'\<rparr>) cs cs2)"
      by (simp add: d) (simp add: c1)
    with ih f1 have "cs' = stripeVisible f (map2 (\<lambda>c c'. c\<lparr>display := display c'\<rparr>) (c # cs) cs')"
      unfolding cs' by simp
    moreover have "visible c1" unfolding c1 by (simp add: visible_def)
    then have "f' = (f = even (length (filter visible cs')))"
      unfolding cs' f' using f1 ihf by auto
    ultimately show ?thesis by simp
  qed
qed

lemma forEach_showEach_nth:
  "i < length cs \<Longrightarrow>
     snd (snd (forEach (showEach ListView) f cs)) ! i
       = snd (handleOddRow (f = even i, (cs ! i)\<lparr>display := js ''table-row''\<rparr>))"
proof (induction cs arbitrary: f i)
  case Nil
  then show ?case by simp
next
  case (Cons c cs)
  obtain f1 c1 where s1: "showCourse ListView (f, c) = (f1, c1)"
    by (cases "showCourse ListView (f, c)")
  then have f1: "f1 = (\<not> f)" and c1: "c1 = snd (handleOddRow (f, c\<lparr>display := js ''table-row''\<rparr>))"
    by (simp_all add: showCourse_def handleOddRow_def)
  have e: "showEach ListView (f, c) = (Completed, f1, c1)"
    by (simp add: showEach_def s1)
  obtain r2 f2 cs2 where s2: "forEach (showEach ListView) f1 cs = (r2, f2, cs2)"
    by (cases "forEach (showEach ListView) f1 cs") auto
  have res: "snd (snd (forEach (showEach ListView) f (c # cs))) = c1 # cs2"
    by (simp add: e s2)
  show ?case
  proof (cases i)
    case 0
    then show ?thesis unfolding res by (simp add: c1)
  next
    case (Suc j)
    with Cons.prems have j: "j < length cs" by simp
    from Cons.IH [OF j, of f1] s2
    have "cs2 ! j = snd (handleOddRow (f1 = even j, (cs ! j)\<lparr>display := js ''table-row''\<rparr>))"
      by simp
    moreover have "(f1 = even j) = (f = even (Suc j))" using f1 by auto
    ultimately show ?thesis unfolding res using Suc by simp
  qed
qed

lemma coursesOf_storeCourses:
  assumes "detectLayout p = Inr (ListView, cs)" and "length cs' = length cs"
  shows "coursesOf (storeCourses ListView cs' p) = cs'"
proof -
  from assms(1) obtain l where l: "coursesListContainer p = Some l" and cs: "cs = tl l"
    by (auto simp add: detectLayout_def split: option.splits)
  show ?thesis
  proof (cases l)
    case Nil
    with cs assms(2) have "cs' = []" by simp
    then show ?thesis using l Nil
      by (simp add: coursesOf_def detectLayout_def storeCourses_def)
  next
    case (Cons h t)
    then show ?thesis using l
      by (simp add: coursesOf_def detectLayout_def storeCourses_def)
  qed
qed

lemma applyFilter_list:
  assumes "detectLayout p = Inr (ListView, cs)"
    and "forEach (if moduleCode \<noteq> js ''all''
                  then filterCourse lang ListView (parseModuleCode moduleCode)
                  else showEach ListView) True cs = (r, f', cs')"
  shows "applyFilter lang moduleCode p = (r, storeCourses ListView cs' p)"
    and "coursesOf (snd (applyFilter lang moduleCode p)) = cs'"
proof -
  show a: "applyFilter lang moduleCode p = (r, storeCourses ListView cs' p)"
    using assms by (simp add: applyFilter_def)
  from assms(2) have "length cs' = length cs" by (rule forEach_length_eq)
  with assms(1) show "coursesOf (snd (applyFilter lang moduleCode p)) = cs'"
    unfolding a by (simp add: coursesOf_storeCourses)
qed

section \<open>The module code codec\<close>

text \<open>
  C9: for each of the six concrete module codes, \<open>parseModuleCode\<close> followed by the encoding
  (season, the separator \<open>-\<close>, the segment in lower case) gives the code back.
\<close>

theorem decode_encode_roundtrip:
  "map (\<lambda>c. encodeModuleCode (parseModuleCode c)) (tl moduleCodes) = map Some (tl moduleCodes)"
  by (simp add: moduleCodes_def encodeModuleCode_def parseModuleCode_def at_index_def js_def
      toLowerCase_def)

text \<open>
  C3, as the code has it: \<open>parseModuleCode\<close> validates nothing and has no failure. For every
  string it returns the text before the first \<open>-\<close> as the season and the text between the
  first and the second \<open>-\<close> as the segment, which is undefined when the string has no
  \<open>-\<close>.
\<close>

theorem parseModuleCode_never_fails:
  "parseModuleCode moduleCode =
     \<lparr>season = Some (takeWhile (\<lambda>c. c \<noteq> 0x2D) moduleCode),
      module = (if 0x2D \<in> set moduleCode
                then Some (takeWhile (\<lambda>c. c \<noteq> 0x2D) (tl (dropWhile (\<lambda>c. c \<noteq> 0x2D) moduleCode)))
                else None)\<rparr>"
  unfolding parseModuleCode_def by (simp only: split_first split_second)

text \<open>
  C3, as stated, fails: decoding the sentinel \<open>all\<close> is not rejected; it returns the season
  \<open>all\<close> and an undefined segment.
\<close>

theorem parseModuleCode_all_returns:
  "parseModuleCode (js ''all'') = \<lparr>season = Some (js ''all''), module = None\<rparr>"
  by (simp add: parseModuleCode_def at_index_def js_def)

section \<open>The course-info parser\<close>

text \<open>
  C8: the English parser on \<open>Spring AB Mon. 2\<close> gives spring only and the segments a, b; the
  Japanese parser on the autumn glyph followed by \<open>A\<close>, a space, U+6C34 and \<open>5,6\<close> gives
  autumn only and the segment a. Whatever follows the space after the segment letters is
  ignored.
\<close>

theorem parse_examples:
  "parseCourseInfoString (js ''en'') (js ''Spring AB Mon. 2'')
     = Inr (Some \<lparr>info_season = \<lparr>spring = True, autumn = False\<rparr>, info_module = [js ''a'', js ''b'']\<rparr>)
   \<and> parseCourseInfoString (js ''ja'') (aki # js ''A '' @ 0x6C34 # js ''5,6'')
     = Inr (Some \<lparr>info_season = \<lparr>spring = False, autumn = True\<rparr>, info_module = [js ''a'']\<rparr>)
   \<and> parseCourseInfoString (js ''en'') (js ''Spring AB '' @ rest)
     = Inr (Some \<lparr>info_season = \<lparr>spring = True, autumn = False\<rparr>, info_module = [js ''a'', js ''b'']\<rparr>)
   \<and> parseCourseInfoString (js ''ja'') (aki # js ''A '' @ rest)
     = Inr (Some \<lparr>info_season = \<lparr>spring = False, autumn = True\<rparr>, info_module = [js ''a'']\<rparr>)"
  by (simp add: parseCourseInfoString_def matchEn_def char_defs)

text \<open>
  C2, as stated, fails: on the label made of both season glyphs followed by \<open>ABC\<close> the
  Japanese parser reports no match, since its pattern takes exactly one season glyph.
\<close>

theorem ja_full_year_label_no_match:
  "parseCourseInfoString (js ''ja'') (haru # aki # js ''ABC'') = Inr None"
  by (simp add: parseCourseInfoString_def char_defs)

text \<open>
  C2, as the code has it: one season glyph followed by \<open>ABC\<close> parses to that season alone
  and the segments a, b, c; a label that starts with both season glyphs is no match; and
  no label parses to both seasons.
\<close>

theorem ja_one_season_glyph:
  "parseCourseInfoString (js ''ja'') (haru # js ''ABC'')
     = Inr (Some \<lparr>info_season = \<lparr>spring = True, autumn = False\<rparr>,
                info_module = [js ''a'', js ''b'', js ''c'']\<rparr>)
   \<and> parseCourseInfoString (js ''ja'') (aki # js ''ABC'')
     = Inr (Some \<lparr>info_season = \<lparr>spring = False, autumn = True\<rparr>,
                info_module = [js ''a'', js ''b'', js ''c'']\<rparr>)
   \<and> parseCourseInfoString (js ''ja'') (haru # aki # rest) = Inr None
   \<and> parseCourseInfoString (js ''ja'') (aki # haru # rest) = Inr None
   \<and> parseCourseInfoString (js ''ja'') label
     \<noteq> Inr (Some \<lparr>info_season = \<lparr>spring = True, autumn = True\<rparr>, info_module = ms\<rparr>)"
proof -
  have both: "parseCourseInfoString (js ''ja'') label
     \<noteq> Inr (Some \<lparr>info_season = \<lparr>spring = True, autumn = True\<rparr>, info_module = ms\<rparr>)"
  proof (cases "matchJa label")
    case None
    then show ?thesis by (simp add: parseCourseInfoString_def)
  next
    case (Some tm)
    obtain t m where tm: "tm = (t, m)" by (cases tm)
    from Some tm have "t = [haru] \<or> t = [aki]" using matchJa_season by simp
    then show ?thesis using Some tm
      by (auto simp add: parseCourseInfoString_def haru_def aki_def)
  qed
  have rest: "parseCourseInfoString (js ''ja'') (haru # js ''ABC'')
     = Inr (Some \<lparr>info_season = \<lparr>spring = True, autumn = False\<rparr>,
                info_module = [js ''a'', js ''b'', js ''c'']\<rparr>)"
    "parseCourseInfoString (js ''ja'') (aki # js ''ABC'')
     = Inr (Some \<lparr>info_season = \<lparr>spring = False, autumn = True\<rparr>,
                info_module = [js ''a'', js ''b'', js ''c'']\<rparr>)"
    "parseCourseInfoString (js ''ja'') (haru # aki # rest) = Inr None"
    "parseCourseInfoString (js ''ja'') (aki # haru # rest) = Inr None"
    by (simp_all add: parseCourseInfoString_def char_defs)
  from rest both show ?thesis by blast
qed

text \<open>
  C10, as stated, fails: the label \<open>spring ab\<close>, a line feed, \<open>Mon.\<close>, a line feed, \<open>2\<close>
  parses with both season flags false, but it fails the shape check, so the parser is not
  asked and the row is shown and striped under the selector \<open>spring-a\<close>.
\<close>

theorem en_other_casing_multiline_shown:
  "parseCourseInfoString (js ''en'') (js ''spring ab'' @ 0x0A # js ''Mon.'' @ 0x0A # js ''2'')
      = Inr (Some \<lparr>info_season = \<lparr>spring = False, autumn = False\<rparr>,
                  info_module = [js ''a'', js ''b'']\<rparr>)
   \<and> \<not> hasTwoTokens (js ''spring ab'' @ 0x0A # js ''Mon.'' @ 0x0A # js ''2'')
   \<and> filterCourse (js ''en'') ListView (parseModuleCode (js ''spring-a''))
        (True, exampleRow (js ''spring ab'' @ 0x0A # js ''Mon.'' @ 0x0A # js ''2''))
      = (Completed, False,
         \<lparr>display = js ''table-row'', classList = [js ''row1''],
          children = [js ''2024'', js ''Course'',
                      js ''spring ab'' @ 0x0A # js ''Mon.'' @ 0x0A # js ''2''],
          dateSpan = None\<rparr>)"
  by (simp add: parseCourseInfoString_def matchEn_def filterCourse_def displayRow_def
      getCourseInfoString_def at_index_def exampleRow_def showCourse_def handleOddRow_def
      replace_def char_defs)

text \<open>
  C10, as the code has it: an English label whose season word is \<open>Spring\<close> or \<open>Autumn\<close> in
  any other casing, followed by a white-space character and segment letters, parses with
  both season flags false. When the label passes the shape check, as it does whenever no
  line terminator follows the white-space character, the entry is hidden under each of
  the six concrete module codes, and the striping flag is left as it was.
\<close>

theorem en_other_casing_hidden:
  assumes "map toUpperCase w = js ''SPRING'' \<or> map toUpperCase w = js ''AUTUMN''"
    and "w \<noteq> js ''Spring''" and "w \<noteq> js ''Autumn''"
    and "isWhiteSpace sp" and "segs \<noteq> []" and "list_all isSegmentLetter segs"
    and "moduleCode \<in> set (tl moduleCodes)"
    and "getCourseInfoString vm c = Inr (w @ sp # segs @ rest)"
    and "hasTwoTokens (w @ sp # segs @ rest)
         \<or> list_all (\<lambda>u. \<not> isLineTerminator u) (segs @ rest)"
  shows "parseCourseInfoString (js ''en'') (w @ sp # segs @ rest)
      = Inr (Some \<lparr>info_season = \<lparr>spring = False, autumn = False\<rparr>,
                  info_module = map (\<lambda>u. [toLowerCase u]) (segs @ takeWhile isSegmentLetter rest)\<rparr>)
    \<and> filterCourse (js ''en'') vm (parseModuleCode moduleCode) (isOddRow, c)
      = (Completed, isOddRow, c\<lparr>display := js ''none''\<rparr>)"
proof -
  have m: "matchEn (w @ sp # segs @ rest) = Some (w, segs @ takeWhile isSegmentLetter rest)"
    using assms(1,4,5,6) by (rule matchEn_cased)
  have en: "js ''en'' \<noteq> js ''ja''" by (simp add: js_def)
  have p: "parseCourseInfoString (js ''en'') (w @ sp # segs @ rest)
      = Inr (Some \<lparr>info_season = \<lparr>spring = False, autumn = False\<rparr>,
                  info_module = map (\<lambda>u. [toLowerCase u]) (segs @ takeWhile isSegmentLetter rest)\<rparr>)"
    using assms(2,3) en by (simp add: parseCourseInfoString_def m)
  have k: "\<not> seasonMember \<lparr>spring = False, autumn = False\<rparr> (season (parseModuleCode moduleCode))"
    using concrete_season [OF assms(7)] by (auto simp add: seasonMember_def)
  have shape: "hasTwoTokens (w @ sp # segs @ rest)"
    using assms(9) hasTwoTokens_single_line [OF assms(1,4), of "segs @ rest"] assms(5) by auto
  have "filterCourse (js ''en'') vm (parseModuleCode moduleCode) (isOddRow, c)
      = (Completed, isOddRow, c\<lparr>display := js ''none''\<rparr>)"
    using assms(8) shape k by (simp add: filterCourse_def p hideCourse_def[symmetric])
  with p show ?thesis by simp
qed

theorem en_other_casing_witness:
  "parseCourseInfoString (js ''en'') (js ''spring ab Mon. 2'')
      = Inr (Some \<lparr>info_season = \<lparr>spring = False, autumn = False\<rparr>,
                  info_module = [js ''a'', js ''b'']\<rparr>)
   \<and> filterCourse (js ''en'') ListView (parseModuleCode (js ''spring-a''))
        (True, exampleRow (js ''spring ab Mon. 2''))
      = (Completed, True, (exampleRow (js ''spring ab Mon. 2''))\<lparr>display := js ''none''\<rparr>)"
proof -
  have lab: "js ''spring ab Mon. 2'' = js ''spring'' @ 0x20 # js ''ab'' @ js '' Mon. 2''"
    by (simp add: js_def)
  have h1: "map toUpperCase (js ''spring'') = js ''SPRING'' \<or> map toUpperCase (js ''spring'') = js ''AUTUMN''"
    by (simp add: char_defs)
  have h2: "js ''spring'' \<noteq> js ''Spring''" and h3: "js ''spring'' \<noteq> js ''Autumn''"
    by (simp_all add: js_def)
  have h4: "isWhiteSpace 0x20" by (simp add: char_defs)
  have h5: "js ''ab'' \<noteq> []" and h6: "list_all isSegmentLetter (js ''ab'')"
    by (simp_all add: char_defs)
  have h7: "js ''spring-a'' \<in> set (tl moduleCodes)" by (simp add: moduleCodes_def)
  have h8: "getCourseInfoString ListView (exampleRow (js ''spring ab Mon. 2''))
      = Inr (js ''spring'' @ 0x20 # js ''ab'' @ js '' Mon. 2'')"
    unfolding lab[symmetric] by (simp add: getCourseInfoString_def exampleRow_def at_index_def)
  have h9: "hasTwoTokens (js ''spring'' @ 0x20 # js ''ab'' @ js '' Mon. 2'')
      \<or> list_all (\<lambda>u. \<not> isLineTerminator u) (js ''ab'' @ js '' Mon. 2'')"
    by (simp add: char_defs)
  have tw: "js ''ab'' @ takeWhile isSegmentLetter (js '' Mon. 2'') = js ''ab''"
    by (simp add: char_defs)
  from en_other_casing_hidden [OF h1 h2 h3 h4 h5 h6 h7 h8 h9, of True]
  show ?thesis unfolding lab[symmetric] tw by (simp add: char_defs)
qed

section \<open>The visibility engine\<close>

text \<open>
  C6: when the page has neither the list container nor the thumbnail container, the pass
  fails with the invalid-view-mode error and the page is exactly as it was.
\<close>

theorem unrecognized_layout_fails_untouched:
  "coursesListContainer p = None \<Longrightarrow> coursesThumbnailContainer p = None
   \<Longrightarrow> applyFilter lang moduleCode p = (Thrown InvalidViewMode, p)"
  by (simp add: applyFilter_def detectLayout_def)

theorem unrecognized_layout_witness:
  "applyFilter (js ''ja'') (js ''spring-a'')
     \<lparr>coursesListContainer = None, coursesThumbnailContainer = None\<rparr>
   = (Thrown InvalidViewMode, \<lparr>coursesListContainer = None, coursesThumbnailContainer = None\<rparr>)"
  using unrecognized_layout_fails_untouched
    [of "\<lparr>coursesListContainer = None, coursesThumbnailContainer = None\<rparr>" "js ''ja''" "js ''spring-a''"]
  by simp

text \<open>
  C7, as stated, fails: the label \<open>Intensive\<close> followed by two spaces has one token, yet
  it passes the shape check \<^verbatim>\<open>/^.+\s.+$/\<close>, goes to the parser, does not match, and the
  row ends hidden under the selector \<open>spring-a\<close>.
\<close>

theorem padded_single_token_hidden:
  "length (whitespaceTokens (js ''Intensive  '')) = 1
   \<and> hasTwoTokens (js ''Intensive  '')
   \<and> applyFilter (js ''en'') (js ''spring-a'') (examplePage [js ''Intensive  ''])
     = (Completed,
        \<lparr>coursesListContainer =
           Some [exampleRow (js ''Term''),
                 \<lparr>display = js ''none'', classList = [js ''row0''],
                  children = [js ''2024'', js ''Course'', js ''Intensive  ''],
                  dateSpan = None\<rparr>],
         coursesThumbnailContainer = None\<rparr>)"
  by (simp add: whitespaceTokens_def applyFilter_def detectLayout_def examplePage_def
      exampleRow_def storeCourses_def filterCourse_def displayRow_def getCourseInfoString_def
      at_index_def hideCourse_def parseCourseInfoString_def matchEn_def parseModuleCode_def
      char_defs)

text \<open>
  C7, as the code has it: an entry whose label fails the shape check \<^verbatim>\<open>/^.+\s.+$/\<close>, in
  particular a label without any white-space character, is shown, whatever the language
  and the decoded module code are; the parser is not consulted, so no language error can
  arise.
\<close>

theorem short_label_force_shown:
  assumes "getCourseInfoString vm c = Inr label"
    and "\<not> hasTwoTokens label \<or> (\<forall>u\<in>set label. \<not> isWhiteSpace u)"
  shows "filterCourse lang vm parsed (isOddRow, c) = (Completed, showCourse vm (isOddRow, c))
    \<and> display (snd (snd (filterCourse lang vm parsed (isOddRow, c))))
        = (case vm of ListView \<Rightarrow> js ''table-row'' | ThumbnailView \<Rightarrow> js ''block'')"
proof -
  from assms(2) have "\<not> hasTwoTokens label"
    using hasTwoTokens_needs_space by blast
  with assms(1) have "filterCourse lang vm parsed (isOddRow, c) = (Completed, showCourse vm (isOddRow, c))"
    by (simp add: filterCourse_def)
  then show ?thesis by (simp add: display_showCourse)
qed

theorem short_label_witness:
  "filterCourse (js ''ja'') ListView (parseModuleCode (js ''spring-a'')) (True, exampleRow (js ''Intensive''))
     = (Completed, False,
        \<lparr>display = js ''table-row'', classList = [js ''row1''],
         children = [js ''2024'', js ''Course'', js ''Intensive''], dateSpan = None\<rparr>)"
proof -
  have l: "getCourseInfoString ListView (exampleRow (js ''Intensive'')) = Inr (js ''Intensive'')"
    by (simp add: getCourseInfoString_def exampleRow_def at_index_def)
  have s: "\<not> hasTwoTokens (js ''Intensive'') \<or> (\<forall>u\<in>set (js ''Intensive''). \<not> isWhiteSpace u)"
    by (simp add: char_defs)
  from short_label_force_shown [OF l s, of "js ''ja''" "parseModuleCode (js ''spring-a'')" True]
  show ?thesis
    by (simp add: showCourse_def handleOddRow_def exampleRow_def replace_def)
qed

text \<open>
  C1, as the code has it: an entry whose label passes the shape check and for which the
  parser reports no match is hidden, and the striping flag is left as it was.
\<close>

theorem no_match_label_hidden:
  assumes "getCourseInfoString vm c = Inr label"
    and "hasTwoTokens label"
    and "parseCourseInfoString lang label = Inr None"
  shows "filterCourse lang vm parsed (isOddRow, c) = (Completed, isOddRow, c\<lparr>display := js ''none''\<rparr>)"
  using assms by (simp add: filterCourse_def hideCourse_def[symmetric])

theorem no_match_label_hidden_witness:
  "filterCourse (js ''en'') ListView (parseModuleCode (js ''autumn-b''))
     (True, exampleRow (js ''Intensive course''))
   = (Completed, True, (exampleRow (js ''Intensive course''))\<lparr>display := js ''none''\<rparr>)"
proof -
  have l: "getCourseInfoString ListView (exampleRow (js ''Intensive course'')) = Inr (js ''Intensive course'')"
    by (simp add: getCourseInfoString_def exampleRow_def at_index_def)
  have s: "hasTwoTokens (js ''Intensive course'')"
    by (simp add: char_defs)
  have n: "parseCourseInfoString (js ''en'') (js ''Intensive course'') = Inr None"
    by (simp add: parseCourseInfoString_def matchEn_def char_defs)
  from no_match_label_hidden [OF l s n] show ?thesis .
qed

text \<open>
  C1, as stated, fails: under the Japanese language and the selector \<open>spring-a\<close>, a row
  labelled \<open>Intensive course\<close> passes the shape check, does not match the pattern, and
  ends hidden.
\<close>

theorem no_match_label_not_shown:
  "hasTwoTokens (js ''Intensive course'')
   \<and> parseCourseInfoString (js ''ja'') (js ''Intensive course'') = Inr None
   \<and> applyFilter (js ''ja'') (js ''spring-a'') (examplePage [js ''Intensive course''])
     = (Completed,
        \<lparr>coursesListContainer =
           Some [exampleRow (js ''Term''),
                 \<lparr>display = js ''none'', classList = [js ''row0''],
                  children = [js ''2024'', js ''Course'', js ''Intensive course''],
                  dateSpan = None\<rparr>],
         coursesThumbnailContainer = None\<rparr>)"
  by (simp add: applyFilter_def detectLayout_def examplePage_def exampleRow_def storeCourses_def
      filterCourse_def displayRow_def getCourseInfoString_def at_index_def hideCourse_def
      parseCourseInfoString_def parseModuleCode_def char_defs)

text \<open>
  C4, as the code has it: under a language that is neither \<open>ja\<close> nor \<open>en\<close> and a concrete
  selector, the pass fails with the invalid-language error at the first entry whose label
  passes the shape check. The entries before it, whose labels all fail the check, have
  been shown exactly as the \<open>all\<close> selector shows them; in list layout the failing entry
  has been set to display as a table row; the entries after it are untouched.
\<close>

theorem unsupported_lang_fails_at_first_parse:
  assumes "lang \<noteq> js ''ja''" and "lang \<noteq> js ''en''" and "moduleCode \<noteq> js ''all''"
    and "detectLayout p = Inr (vm, pre @ c # post)"
    and "\<forall>c'\<in>set pre. \<exists>l. getCourseInfoString vm c' = Inr l \<and> \<not> hasTwoTokens l"
    and "getCourseInfoString vm c = Inr label" and "hasTwoTokens label"
  shows "applyFilter lang moduleCode p =
     (Thrown InvalidLang,
      storeCourses vm (snd (snd (forEach (showEach vm) True pre)) @ displayRow vm c # post) p)"
proof -
  have step: "filterCourse lang vm (parseModuleCode moduleCode) (f, c)
      = (Thrown InvalidLang, f, displayRow vm c)" for f
    using assms(1,2,6,7) by (rule filterCourse_invalid_lang)
  have "forEach (filterCourse lang vm (parseModuleCode moduleCode)) True (pre @ c # post) =
     (case forEach (showEach vm) True pre of
        (r, f', pre') \<Rightarrow> (Thrown InvalidLang, f', pre' @ displayRow vm c # post))"
    by (simp add: forEach_short_prefix [OF assms(5)] step split: prod.splits)
  then show ?thesis
    using assms(3,4) by (simp add: applyFilter_def split: prod.splits)
qed

theorem unsupported_lang_witness:
  "applyFilter (js ''fr'') (js ''autumn-c'') (examplePage [js ''Intensive'', js ''Spring A Mon. 1'', js ''Autumn C Fri. 2''])
   = (Thrown InvalidLang,
      \<lparr>coursesListContainer =
         Some [exampleRow (js ''Term''),
               \<lparr>display = js ''table-row'', classList = [js ''row1''],
                children = [js ''2024'', js ''Course'', js ''Intensive''], dateSpan = None\<rparr>,
               \<lparr>display = js ''table-row'', classList = [js ''row0''],
                children = [js ''2024'', js ''Course'', js ''Spring A Mon. 1''], dateSpan = None\<rparr>,
               exampleRow (js ''Autumn C Fri. 2'')],
       coursesThumbnailContainer = None\<rparr>)"
proof -
  let ?p = "examplePage [js ''Intensive'', js ''Spring A Mon. 1'', js ''Autumn C Fri. 2'']"
  have h1: "js ''fr'' \<noteq> js ''ja''" and h2: "js ''fr'' \<noteq> js ''en''"
    and h3: "js ''autumn-c'' \<noteq> js ''all''"
    by (simp_all add: js_def)
  have h4: "detectLayout ?p = Inr (ListView,
      [exampleRow (js ''Intensive'')] @ exampleRow (js ''Spring A Mon. 1'') # [exampleRow (js ''Autumn C Fri. 2'')])"
    by (simp add: detectLayout_def examplePage_def)
  have h5: "\<forall>c'\<in>set [exampleRow (js ''Intensive'')].
      \<exists>l. getCourseInfoString ListView c' = Inr l \<and> \<not> hasTwoTokens l"
    by (simp add: getCourseInfoString_def exampleRow_def at_index_def char_defs)
  have h6: "getCourseInfoString ListView (exampleRow (js ''Spring A Mon. 1'')) = Inr (js ''Spring A Mon. 1'')"
    by (simp add: getCourseInfoString_def exampleRow_def at_index_def)
  have h7: "hasTwoTokens (js ''Spring A Mon. 1'')"
    by (simp add: char_defs)
  from unsupported_lang_fails_at_first_parse [OF h1 h2 h3 h4 h5 h6 h7]
  show ?thesis
    by (simp add: showEach_def showCourse_def handleOddRow_def replace_def storeCourses_def
        displayRow_def examplePage_def exampleRow_def)
qed

text \<open>
  C4, as stated, fails: under the language \<open>fr\<close> the pass over a row labelled
  \<open>Intensive\<close> and a row labelled \<open>Spring A Mon. 1\<close> fails only after the first row was
  shown and striped and the second was set to display; and the pass over the first row
  alone does not fail at all.
\<close>

theorem unsupported_lang_partial_filtering:
  "applyFilter (js ''fr'') (js ''spring-a'') (examplePage [js ''Intensive'', js ''Spring A Mon. 1''])
   = (Thrown InvalidLang,
      \<lparr>coursesListContainer =
         Some [exampleRow (js ''Term''),
               \<lparr>display = js ''table-row'', classList = [js ''row1''],
                children = [js ''2024'', js ''Course'', js ''Intensive''], dateSpan = None\<rparr>,
               \<lparr>display = js ''table-row'', classList = [js ''row0''],
                children = [js ''2024'', js ''Course'', js ''Spring A Mon. 1''], dateSpan = None\<rparr>],
       coursesThumbnailContainer = None\<rparr>)
   \<and> applyFilter (js ''fr'') (js ''spring-a'') (examplePage [js ''Intensive''])
   = (Completed,
      \<lparr>coursesListContainer =
         Some [exampleRow (js ''Term''),
               \<lparr>display = js ''table-row'', classList = [js ''row1''],
                children = [js ''2024'', js ''Course'', js ''Intensive''], dateSpan = None\<rparr>],
       coursesThumbnailContainer = None\<rparr>)"
  by (simp add: applyFilter_def detectLayout_def examplePage_def exampleRow_def storeCourses_def
      filterCourse_def displayRow_def getCourseInfoString_def at_index_def showCourse_def
      handleOddRow_def replace_def parseCourseInfoString_def parseModuleCode_def char_defs)

text \<open>
  C5, as stated, fails in two places. Under the \<open>all\<close> selector two rows that carry
  neither \<^verbatim>\<open>row0\<close> nor \<^verbatim>\<open>row1\<close> are displayed and keep their class list, so they
  receive no alternating class. And in a pass that throws, here under the language
  \<open>fr\<close>, the failing row has been set to display as a table row while the flag is still
  odd.
\<close>

theorem striping_needs_row_class_and_completion:
  "applyFilter (js ''en'') (js ''all'')
     \<lparr>coursesListContainer =
        Some [exampleRow (js ''Term''),
              \<lparr>display = [], classList = [js ''courselist-c''],
               children = [js ''2024'', js ''Course'', js ''Spring A Mon. 1''], dateSpan = None\<rparr>,
              \<lparr>display = [], classList = [js ''courselist-c''],
               children = [js ''2024'', js ''Course'', js ''Autumn B Tue. 2''], dateSpan = None\<rparr>],
      coursesThumbnailContainer = None\<rparr>
   = (Completed,
      \<lparr>coursesListContainer =
         Some [exampleRow (js ''Term''),
               \<lparr>display = js ''table-row'', classList = [js ''courselist-c''],
                children = [js ''2024'', js ''Course'', js ''Spring A Mon. 1''], dateSpan = None\<rparr>,
               \<lparr>display = js ''table-row'', classList = [js ''courselist-c''],
                children = [js ''2024'', js ''Course'', js ''Autumn B Tue. 2''], dateSpan = None\<rparr>],
       coursesThumbnailContainer = None\<rparr>)
   \<and> forEach (filterCourse (js ''fr'') ListView (parseModuleCode (js ''spring-a''))) True
       [exampleRow (js ''Spring A Mon. 1'')]
     = (Thrown InvalidLang, True,
        [\<lparr>display = js ''table-row'', classList = [js ''row0''],
          children = [js ''2024'', js ''Course'', js ''Spring A Mon. 1''], dateSpan = None\<rparr>])"
  by (simp add: applyFilter_def detectLayout_def exampleRow_def storeCourses_def showEach_def
      filterCourse_def displayRow_def getCourseInfoString_def at_index_def showCourse_def
      handleOddRow_def replace_def parseCourseInfoString_def char_defs)

text \<open>
  C5, as the code has it: in list layout every pass starts with the striping flag odd. In
  a pass that completes, the flag is flipped once for each entry that is shown, in order,
  and hiding leaves it alone: the rows end as the striping of the visible ones from the
  odd flag, and the flag at the end of the loop tells the parity of the number of visible
  rows. Under the \<open>all\<close> selector the pass always completes and every entry is displayed
  as a table row; a row that carries one of the two alternating classes ends with
  \<^verbatim>\<open>row1\<close> at the even positions and \<^verbatim>\<open>row0\<close> at the odd ones, counted from zero,
  and a row that carries neither keeps its class list.
\<close>

theorem striping_follows_visible_rows:
  assumes "detectLayout p = Inr (ListView, cs)"
  shows "fst (applyFilter lang (js ''all'') p) = Completed
    \<and> length (coursesOf (snd (applyFilter lang (js ''all'') p))) = length cs
    \<and> (\<forall>i<length cs.
          display (coursesOf (snd (applyFilter lang (js ''all'') p)) ! i) = js ''table-row''
          \<and> (hasRowClass (cs ! i) \<longrightarrow>
               stripedAs (even i) (coursesOf (snd (applyFilter lang (js ''all'') p)) ! i))
          \<and> (\<not> hasRowClass (cs ! i) \<longrightarrow>
               classList (coursesOf (snd (applyFilter lang (js ''all'') p)) ! i)
                 = classList (cs ! i)))
    \<and> (fst (applyFilter lang moduleCode p) = Completed \<longrightarrow>
          coursesOf (snd (applyFilter lang moduleCode p))
            = stripeVisible True
                (map2 (\<lambda>c c'. c\<lparr>display := display c'\<rparr>) cs
                   (coursesOf (snd (applyFilter lang moduleCode p)))))
    \<and> (forEach (filterCourse lang ListView parsed) f cs = (Completed, f', cs') \<longrightarrow>
          f' = (f = even (length (filter visible cs'))))"
proof -
  obtain r1 f1 cs1 where run1: "forEach (showEach ListView) True cs = (r1, f1, cs1)"
    by (cases "forEach (showEach ListView) True cs") auto
  then have run1': "forEach (if js ''all'' \<noteq> js ''all''
                  then filterCourse lang ListView (parseModuleCode (js ''all''))
                  else showEach ListView) True cs = (r1, f1, cs1)"
    by simp
  have r1: "r1 = Completed" using run1 by (rule forEach_showEach_completed)
  have len1: "length cs1 = length cs" using run1 by (rule forEach_length_eq)
  have res1: "applyFilter lang (js ''all'') p = (Completed, storeCourses ListView cs1 p)"
    and co1: "coursesOf (snd (applyFilter lang (js ''all'') p)) = cs1"
    using applyFilter_list [OF assms run1'] r1 by simp_all
  have rows: "display (cs1 ! i) = js ''table-row''
      \<and> (hasRowClass (cs ! i) \<longrightarrow> stripedAs (even i) (cs1 ! i))
      \<and> (\<not> hasRowClass (cs ! i) \<longrightarrow> classList (cs1 ! i) = classList (cs ! i))"
    if i: "i < length cs" for i
  proof -
    from forEach_showEach_nth [OF i, of True] run1
    have row: "cs1 ! i = snd (handleOddRow (even i, (cs ! i)\<lparr>display := js ''table-row''\<rparr>))"
      by simp
    have "hasRowClass ((cs ! i)\<lparr>display := js ''table-row''\<rparr>) = hasRowClass (cs ! i)"
      by (simp add: hasRowClass_def)
    then show ?thesis unfolding row
      by (simp add: handleOddRow_striped handleOddRow_unclassed)
  qed
  let ?g = "if moduleCode \<noteq> js ''all''
            then filterCourse lang ListView (parseModuleCode moduleCode)
            else showEach ListView"
  obtain r2 f2 cs2 where run2: "forEach ?g True cs = (r2, f2, cs2)"
    by (cases "forEach ?g True cs") auto
  have res2: "applyFilter lang moduleCode p = (r2, storeCourses ListView cs2 p)"
    and co2: "coursesOf (snd (applyFilter lang moduleCode p)) = cs2"
    using applyFilter_list [OF assms run2] by simp_all
  have step: "(f' = f \<and> c' = c\<lparr>display := js ''none''\<rparr>)
      \<or> (f', c') = handleOddRow (f, c\<lparr>display := js ''table-row''\<rparr>)"
    if "?g (f, c) = (Completed, f', c')" for f c f' c'
    using that filterCourse_list_cases showEach_list_cases by (auto split: if_splits)
  have any: "cs2 = stripeVisible True (map2 (\<lambda>c c'. c\<lparr>display := display c'\<rparr>) cs cs2)"
    if "r2 = Completed"
    using forEach_stripes [of ?g True cs f2 cs2] step run2 that by blast
  have flag: "f' = (f = even (length (filter visible cs')))"
    if "forEach (filterCourse lang ListView parsed) f cs = (Completed, f', cs')"
    using forEach_stripes [of "filterCourse lang ListView parsed" f cs f' cs']
      filterCourse_list_cases that by blast
  show ?thesis
    unfolding co1 co2
    unfolding res1 res2
    using len1 rows any flag by simp
qed

theorem striping_witness:
  "fst (applyFilter (js ''en'') (js ''all'')
         (examplePage [js ''Spring A Mon. 1'', js ''Autumn B Tue. 2'', js ''Spring AB Wed. 3''])) = Completed
   \<and> stripedAs True (coursesOf (snd (applyFilter (js ''en'') (js ''all'')
         (examplePage [js ''Spring A Mon. 1'', js ''Autumn B Tue. 2'', js ''Spring AB Wed. 3'']))) ! 0)
   \<and> stripedAs False (coursesOf (snd (applyFilter (js ''en'') (js ''all'')
         (examplePage [js ''Spring A Mon. 1'', js ''Autumn B Tue. 2'', js ''Spring AB Wed. 3'']))) ! 1)
   \<and> stripedAs True (coursesOf (snd (applyFilter (js ''en'') (js ''all'')
         (examplePage [js ''Spring A Mon. 1'', js ''Autumn B Tue. 2'', js ''Spring AB Wed. 3'']))) ! 2)
   \<and> coursesOf (snd (applyFilter (js ''en'') (js ''spring-a'')
         (examplePage [js ''Spring A Mon. 1'', js ''Autumn B Tue. 2'', js ''Spring AB Wed. 3''])))
       = stripeVisible True
           [(exampleRow (js ''Spring A Mon. 1''))\<lparr>display := js ''table-row''\<rparr>,
            (exampleRow (js ''Autumn B Tue. 2''))\<lparr>display := js ''none''\<rparr>,
            (exampleRow (js ''Spring AB Wed. 3''))\<lparr>display := js ''table-row''\<rparr>]"
proof -
  let ?p = "examplePage [js ''Spring A Mon. 1'', js ''Autumn B Tue. 2'', js ''Spring AB Wed. 3'']"
  let ?cs = "[exampleRow (js ''Spring A Mon. 1''), exampleRow (js ''Autumn B Tue. 2''),
              exampleRow (js ''Spring AB Wed. 3'')]"
  have h: "detectLayout ?p = Inr (ListView, ?cs)"
    by (simp add: detectLayout_def examplePage_def)
  have rc: "hasRowClass (exampleRow l)" for l
    by (simp add: hasRowClass_def exampleRow_def)
  have run: "applyFilter (js ''en'') (js ''spring-a'') ?p
      = (Completed,
         \<lparr>coursesListContainer =
            Some [exampleRow (js ''Term''),
                  \<lparr>display = js ''table-row'', classList = [js ''row1''],
                   children = [js ''2024'', js ''Course'', js ''Spring A Mon. 1''], dateSpan = None\<rparr>,
                  \<lparr>display = js ''none'', classList = [js ''row0''],
                   children = [js ''2024'', js ''Course'', js ''Autumn B Tue. 2''], dateSpan = None\<rparr>,
                  \<lparr>display = js ''table-row'', classList = [js ''row0''],
                   children = [js ''2024'', js ''Course'', js ''Spring AB Wed. 3''], dateSpan = None\<rparr>],
          coursesThumbnailContainer = None\<rparr>)"
    by (simp add: applyFilter_def detectLayout_def examplePage_def exampleRow_def storeCourses_def
      filterCourse_def displayRow_def getCourseInfoString_def at_index_def showCourse_def
      hideCourse_def handleOddRow_def replace_def parseCourseInfoString_def parseModuleCode_def
      matchEn_def seasonMember_def moduleIncludes_def char_defs)
  note t = striping_follows_visible_rows [OF h, of "js ''en''" "js ''spring-a''"]
  from t have a: "fst (applyFilter (js ''en'') (js ''all'') ?p) = Completed" by blast
  from t have "\<forall>i<length ?cs. hasRowClass (?cs ! i) \<longrightarrow>
      stripedAs (even i) (coursesOf (snd (applyFilter (js ''en'') (js ''all'') ?p)) ! i)"
    by blast
  then have b: "stripedAs (even i) (coursesOf (snd (applyFilter (js ''en'') (js ''all'') ?p)) ! i)"
    if "i < 3" for i
    using that rc by (auto simp add: nth_Cons split: nat.splits)
  from t have "fst (applyFilter (js ''en'') (js ''spring-a'') ?p) = Completed \<longrightarrow>
          coursesOf (snd (applyFilter (js ''en'') (js ''spring-a'') ?p))
            = stripeVisible True
                (map2 (\<lambda>c c'. c\<lparr>display := display c'\<rparr>) ?cs
                   (coursesOf (snd (applyFilter (js ''en'') (js ''spring-a'') ?p))))"
    by blast
  then have c: "coursesOf (snd (applyFilter (js ''en'') (js ''spring-a'') ?p))
            = stripeVisible True
                (map2 (\<lambda>c c'. c\<lparr>display := display c'\<rparr>) ?cs
                   (coursesOf (snd (applyFilter (js ''en'') (js ''spring-a'') ?p))))"
    by (simp add: run)
  have d: "map2 (\<lambda>c c'. c\<lparr>display := display c'\<rparr>) ?cs
                   (coursesOf (snd (applyFilter (js ''en'') (js ''spring-a'') ?p)))
      = [(exampleRow (js ''Spring A Mon. 1''))\<lparr>display := js ''table-row''\<rparr>,
            (exampleRow (js ''Autumn B Tue. 2''))\<lparr>display := js ''none''\<rparr>,
            (exampleRow (js ''Spring AB Wed. 3''))\<lparr>display := js ''table-row''\<rparr>]"
    unfolding run by (simp add: coursesOf_def detectLayout_def)
  from a b [of 0] b [of 1] b [of 2] c [unfolded d] show ?thesis by simp
qed

end
